theory Spec2Isabelle
  imports Main "HOL-Library.AList" "HOL-Library.List_Lexorder" "HOL-Library.Char_ord"
begin

section \<open>Bulk Calendar Events: the values read from the spreadsheet\<close>

text \<open>
  The program (\<^verbatim>\<open>src/main.py\<close>) reads the rows of a spreadsheet with openpyxl and
  turns each of them into an icalendar event. A cell of the sheet holds one Python
  value. The values openpyxl hands out are \<^verbatim>\<open>None\<close> (an empty cell), \<^verbatim>\<open>str\<close>,
  \<^verbatim>\<open>int\<close>, \<^verbatim>\<open>float\<close>, \<^verbatim>\<open>bool\<close>, and the classes \<^verbatim>\<open>datetime\<close>, \<^verbatim>\<open>date\<close>,
  \<^verbatim>\<open>time\<close> and \<^verbatim>\<open>timedelta\<close> of the module \<^verbatim>\<open>datetime\<close>.

  Python's \<^verbatim>\<open>datetime\<close> is a subclass of \<^verbatim>\<open>date\<close>: the record of a datetime extends
  the record of a date. The times of day of a sheet are naive (openpyxl never attaches
  a time zone), so the record of a time has no \<^verbatim>\<open>tzinfo\<close>; a datetime has one, since
  icalendar marks the generation timestamp as UTC.
\<close>

record date =
  year :: nat
  month :: nat
  day :: nat

record time =
  hour :: nat
  minute :: nat
  second :: nat
  microsecond :: nat

datatype tzinfo = UTC

record datetime = date +
  dt_hour :: nat
  dt_minute :: nat
  dt_second :: nat
  dt_microsecond :: nat
  dt_tzinfo :: "tzinfo option"

datatype cell_value =
    VNone
  | VStr string
  | VInt int
  | VFloat string  \<comment> \<open>a float, carried as its \<^verbatim>\<open>repr\<close>\<close>
  | VBool bool
  | VDateTime datetime
  | VDate date
  | VTime time
  | VTimedelta int nat nat  \<comment> \<open>days, seconds, microseconds\<close>

datatype error =
    StopIteration
  | ValueError
  | TypeError
  | FileNotFoundError
  | BadZipFile
  | OSError
  | EOFError

subsection \<open>\<^verbatim>\<open>str(value)\<close>\<close>

fun digits :: "nat \<Rightarrow> string" where
  "digits n =
     (if n < 10 then [''0123456789'' ! n]
      else digits (n div 10) @ [''0123456789'' ! (n mod 10)])"

declare digits.simps [simp del]

definition zfill :: "nat \<Rightarrow> string \<Rightarrow> string" where
  "zfill w s = replicate (w - length s) CHR ''0'' @ s"

definition str_int :: "int \<Rightarrow> string" where
  "str_int i = (if i < 0 then ''-'' @ digits (nat (- i)) else digits (nat i))"

definition str_date :: "'a date_scheme \<Rightarrow> string" where
  "str_date d =
     zfill 4 (digits (year d)) @ ''-'' @ zfill 2 (digits (month d)) @ ''-'' @
     zfill 2 (digits (day d))"

definition str_hms :: "nat \<Rightarrow> nat \<Rightarrow> nat \<Rightarrow> nat \<Rightarrow> string" where
  "str_hms h m s us =
     zfill 2 (digits h) @ '':'' @ zfill 2 (digits m) @ '':'' @ zfill 2 (digits s) @
     (if us = 0 then [] else ''.'' @ zfill 6 (digits us))"

definition str_timedelta :: "int \<Rightarrow> nat \<Rightarrow> nat \<Rightarrow> string" where
  "str_timedelta days secs us =
     (if days = 0 then []
      else str_int days @ '' day'' @ (if \<bar>days\<bar> \<noteq> 1 then ''s'' else []) @ '', '') @
     digits (secs div 3600) @ '':'' @ zfill 2 (digits (secs div 60 mod 60)) @ '':'' @
     zfill 2 (digits (secs mod 60)) @
     (if us = 0 then [] else ''.'' @ zfill 6 (digits us))"

fun py_str :: "cell_value \<Rightarrow> string" where
  "py_str VNone = ''None''"
| "py_str (VStr s) = s"
| "py_str (VInt i) = str_int i"
| "py_str (VFloat r) = r"
| "py_str (VBool b) = (if b then ''True'' else ''False'')"
| "py_str (VDateTime dt) =
     str_date dt @ '' '' @
     str_hms (dt_hour dt) (dt_minute dt) (dt_second dt) (dt_microsecond dt) @
     (case dt_tzinfo dt of None \<Rightarrow> [] | Some UTC \<Rightarrow> ''+00:00'')"
| "py_str (VDate d) = str_date d"
| "py_str (VTime t) = str_hms (hour t) (minute t) (second t) (microsecond t)"
| "py_str (VTimedelta days secs us) = str_timedelta days secs us"

subsection \<open>\<^verbatim>\<open>datetime.combine(date, time)\<close>\<close>

text \<open>
  \<^verbatim>\<open>datetime.combine\<close> raises \<^verbatim>\<open>TypeError\<close> unless its first argument is an instance
  of \<^verbatim>\<open>date\<close> (a \<^verbatim>\<open>datetime\<close> is one; its time of day is dropped) and its second an
  instance of \<^verbatim>\<open>time\<close> (a \<^verbatim>\<open>datetime\<close> is not one). The result takes year, month and
  day from the date, the time of day and the \<^verbatim>\<open>tzinfo\<close> from the time; no field is
  converted.
\<close>

fun as_date :: "cell_value \<Rightarrow> date option" where
  "as_date (VDate d) = Some d"
| "as_date (VDateTime dt) = Some (date.truncate dt)"
| "as_date _ = None"

fun as_time :: "cell_value \<Rightarrow> time option" where
  "as_time (VTime t) = Some t"
| "as_time _ = None"

definition combine :: "cell_value \<Rightarrow> cell_value \<Rightarrow> error + datetime" where
  "combine d t =
     (case as_date d of
        None \<Rightarrow> Inl TypeError
      | Some d' \<Rightarrow>
          (case as_time t of
             None \<Rightarrow> Inl TypeError
           | Some t' \<Rightarrow>
               Inr \<lparr>year = year d', month = month d', day = day d',
                    dt_hour = hour t', dt_minute = minute t', dt_second = second t',
                    dt_microsecond = microsecond t', dt_tzinfo = None\<rparr>))"

section \<open>icalendar components\<close>

text \<open>
  A component (\<^verbatim>\<open>Event\<close>, \<^verbatim>\<open>Calendar\<close>) is a case-insensitive ordered dictionary of
  properties, kept under upper-case keys, with a list of subcomponents. A property
  value is a \<^verbatim>\<open>vText\<close>, a \<^verbatim>\<open>vDDDTypes\<close> holding a datetime, or the list that
  \<^verbatim>\<open>Component.add\<close> builds when a property is added twice.
\<close>

datatype property =
    vText string
  | vDDDTypes datetime
  | vList "property list"

datatype component =
  Component (cname: string) (props: "(string \<times> property) list") (subcomponents: "component list")

text \<open>
  \<^verbatim>\<open>str.lower\<close> and \<^verbatim>\<open>str.upper\<close> on the letters of ASCII. A string is a list of
  bytes here; no character outside ASCII is turned into an ASCII letter on its own by
  Python's \<^verbatim>\<open>lower\<close>, so the comparisons with \<^verbatim>\<open>.xlsx\<close> and \<^verbatim>\<open>.ics\<close> below come out
  as they do in Python.
\<close>

definition lower_char :: "char \<Rightarrow> char" where
  "lower_char c =
     (case map_of (zip ''ABCDEFGHIJKLMNOPQRSTUVWXYZ'' ''abcdefghijklmnopqrstuvwxyz'') c of
        Some l \<Rightarrow> l
      | None \<Rightarrow> c)"

definition upper_char :: "char \<Rightarrow> char" where
  "upper_char c =
     (case map_of (zip ''abcdefghijklmnopqrstuvwxyz'' ''ABCDEFGHIJKLMNOPQRSTUVWXYZ'') c of
        Some u \<Rightarrow> u
      | None \<Rightarrow> c)"

definition lower :: "string \<Rightarrow> string" where
  "lower s = map lower_char s"

definition upper :: "string \<Rightarrow> string" where
  "upper s = map upper_char s"

definition Event :: component where
  "Event = Component ''VEVENT'' [] []"

definition Calendar :: component where
  "Calendar = Component ''VCALENDAR'' [] []"

text \<open>\<^verbatim>\<open>component[name]\<close>, read and written.\<close>

definition getitem :: "component \<Rightarrow> string \<Rightarrow> property option" where
  "getitem c name = map_of (props c) (upper name)"

definition setitem :: "string \<Rightarrow> property \<Rightarrow> component \<Rightarrow> component" where
  "setitem name v c =
     Component (cname c) (AList.update (upper name) v (props c)) (subcomponents c)"

text \<open>
  \<^verbatim>\<open>Component.add(name, value)\<close> encodes the value with the type of the property and
  stores it; a property that is already there becomes a list of values. For
  \<^verbatim>\<open>dtstamp\<close>, \<^verbatim>\<open>created\<close> and \<^verbatim>\<open>last-modified\<close> a naive datetime is first marked as
  UTC (its fields stay as they are). \<^verbatim>\<open>add_text\<close> is \<^verbatim>\<open>add\<close> at a property of type
  text, where the encoding is \<^verbatim>\<open>vText(value)\<close>, a subclass of \<^verbatim>\<open>str\<close> built from the
  value; \<^verbatim>\<open>add_datetime\<close> is \<^verbatim>\<open>add\<close> at a property of type date-time, given a
  datetime.
\<close>

definition add_encoded :: "string \<Rightarrow> property \<Rightarrow> component \<Rightarrow> component" where
  "add_encoded name v c =
     (case getitem c name of
        None \<Rightarrow> setitem name v c
      | Some (vList old) \<Rightarrow> setitem name (vList (old @ [v])) c
      | Some old \<Rightarrow> setitem name (vList [old, v]) c)"

definition add_text :: "string \<Rightarrow> cell_value \<Rightarrow> component \<Rightarrow> component" where
  "add_text name v c = add_encoded name (vText (py_str v)) c"

definition add_datetime :: "string \<Rightarrow> datetime \<Rightarrow> component \<Rightarrow> component" where
  "add_datetime name dt c =
     (let v = (if lower name \<in> {''dtstamp'', ''created'', ''last-modified''}
               then dt\<lparr>dt_tzinfo := Some UTC\<rparr> else dt)
      in add_encoded name (vDDDTypes v) c)"

definition add_component :: "component \<Rightarrow> component \<Rightarrow> component" where
  "add_component sub c = Component (cname c) (props c) (subcomponents c @ [sub])"

subsection \<open>\<^verbatim>\<open>Component.to_ical()\<close>\<close>

text \<open>
  The serializer of icalendar (version 5 and later), followed function by function.
  \<^verbatim>\<open>property_items\<close> lists \<^verbatim>\<open>BEGIN\<close>, the properties in the order of \<^verbatim>\<open>sorted_keys\<close>
  (the names of the component's \<^verbatim>\<open>canonical_order\<close> first, the others in the order of
  \<^verbatim>\<open>sorted\<close>), one item for each value of a list, then the items of the subcomponents
  and \<^verbatim>\<open>END\<close>. A content line is \<^verbatim>\<open>name:value\<close>; the values built by this program
  have no parameters (a datetime that is naive or in UTC gets none). A text is
  escaped by \<^verbatim>\<open>escape_char\<close>, a chain of \<^verbatim>\<open>str.replace\<close> whose patterns are never
  empty; a datetime is printed to the second, with \<^verbatim>\<open>Z\<close> when it is in UTC.
  \<^verbatim>\<open>property_items\<close> hands the elements of a list to \<^verbatim>\<open>to_ical\<close> one by one, and
  \<^verbatim>\<open>Component.add\<close> never puts a list into a list, so the printing of a list is
  never asked for. \<^verbatim>\<open>foldline\<close> breaks a line after 74 characters when the line is
  ASCII, and before the character that would bring the line to 75 bytes of UTF-8
  otherwise; the lines are joined and ended with CR LF.
\<close>

definition backslash :: char where
  "backslash = CHR 0x5C"

definition CR :: char where
  "CR = CHR 0x0D"

definition LF :: char where
  "LF = CHR 0x0A"

function replace :: "string \<Rightarrow> string \<Rightarrow> string \<Rightarrow> string" where
  "replace old new [] = []"
| "replace old new (c # cs) =
     (if old \<noteq> [] \<and> take (length old) (c # cs) = old
      then new @ replace old new (drop (length old) (c # cs))
      else c # replace old new cs)"
  by pat_completeness auto
termination
  by (relation "measure (\<lambda>(old, new, s). length s)") auto

definition escape_char :: "string \<Rightarrow> string" where
  "escape_char text =
     replace [LF] [backslash, CHR ''n'']
       (replace [CR, LF] [backslash, CHR ''n'']
          (replace '','' [backslash, CHR '','']
             (replace '';'' [backslash, CHR '';'']
                (replace [backslash] [backslash, backslash]
                   (replace [backslash, CHR ''N''] [LF] text)))))"

definition vDatetime_to_ical :: "datetime \<Rightarrow> string" where
  "vDatetime_to_ical dt =
     zfill 4 (digits (year dt)) @ zfill 2 (digits (month dt)) @ zfill 2 (digits (day dt)) @
     ''T'' @ zfill 2 (digits (dt_hour dt)) @ zfill 2 (digits (dt_minute dt)) @
     zfill 2 (digits (dt_second dt)) @
     (case dt_tzinfo dt of None \<Rightarrow> [] | Some UTC \<Rightarrow> ''Z'')"

fun property_to_ical :: "property \<Rightarrow> string" where
  "property_to_ical (vText s) = escape_char s"
| "property_to_ical (vDDDTypes dt) = vDatetime_to_ical dt"
| "property_to_ical (vList vs) = []"

definition canonical_order :: "string \<Rightarrow> string list" where
  "canonical_order name =
     (if name = ''VEVENT''
      then [''SUMMARY'', ''DTSTART'', ''DTEND'', ''DURATION'', ''DTSTAMP'', ''UID'',
            ''RECURRENCE-ID'', ''SEQUENCE'', ''RRULE'', ''RDATE'', ''EXDATE'']
      else if name = ''VCALENDAR''
      then [''VERSION'', ''PRODID'', ''CALSCALE'', ''METHOD'']
      else [])"

definition sorted_keys :: "string \<Rightarrow> (string \<times> property) list \<Rightarrow> string list" where
  "sorted_keys name ps =
     (let keys = map fst ps;
          canon_keys = filter (\<lambda>k. k \<in> set keys) (canonical_order name);
          other_keys = filter (\<lambda>k. k \<notin> set canon_keys) (sort keys)
      in canon_keys @ other_keys)"

fun property_items :: "component \<Rightarrow> (string \<times> property) list" where
  "property_items (Component name ps subs) =
     [(''BEGIN'', vText (escape_char name))] @
     concat (map (\<lambda>k. case map_of ps k of
                          None \<Rightarrow> []
                        | Some (vList vs) \<Rightarrow> map (Pair k) vs
                        | Some v \<Rightarrow> [(k, v)])
               (sorted_keys name ps)) @
     concat (map property_items subs) @
     [(''END'', vText (escape_char name))]"

definition content_line :: "string \<Rightarrow> property \<Rightarrow> string" where
  "content_line name v = name @ '':'' @ property_to_ical v"

text \<open>
  The content lines of a component and of its subcomponents, and \<^verbatim>\<open>content_lines\<close>,
  which ends them with an empty string.
\<close>

definition component_lines :: "component \<Rightarrow> string list" where
  "component_lines c = map (\<lambda>(name, v). content_line name v) (property_items c)"

definition content_lines :: "component \<Rightarrow> string list" where
  "content_lines c = component_lines c @ [[]]"

fun fold_ascii :: "nat \<Rightarrow> string \<Rightarrow> string" where
  "fold_ascii n [] = []"
| "fold_ascii n (c # cs) =
     (if n = 74 then [CR, LF, CHR '' ''] @ c # fold_ascii 1 cs
      else c # fold_ascii (Suc n) cs)"

text \<open>
  The characters of a string, each with its bytes: a byte \<^verbatim>\<open>10xxxxxx\<close> continues the
  character before it.
\<close>

fun utf8_chars :: "string \<Rightarrow> string list" where
  "utf8_chars [] = []"
| "utf8_chars (c # cs) =
     (case utf8_chars cs of
        (d # ds) # rest \<Rightarrow>
          if digit7 d \<and> \<not> digit6 d then (c # d # ds) # rest else [c] # (d # ds) # rest
      | _ \<Rightarrow> [[c]])"

fun fold_utf8 :: "nat \<Rightarrow> string list \<Rightarrow> string" where
  "fold_utf8 byte_count [] = []"
| "fold_utf8 byte_count (ch # chs) =
     (if 75 \<le> byte_count + length ch
      then [CR, LF, CHR '' ''] @ ch @ fold_utf8 (length ch) chs
      else ch @ fold_utf8 (byte_count + length ch) chs)"

definition foldline :: "string \<Rightarrow> string" where
  "foldline line =
     (if list_all (\<lambda>c. \<not> digit7 c) line then fold_ascii 0 line
      else fold_utf8 0 (utf8_chars line))"

fun join :: "string \<Rightarrow> string list \<Rightarrow> string" where
  "join sep [] = []"
| "join sep [x] = x"
| "join sep (x # y # ys) = x @ sep @ join sep (y # ys)"

definition to_ical :: "component \<Rightarrow> string" where
  "to_ical c =
     join [CR, LF] (map foldline (filter (\<lambda>line. line \<noteq> []) (content_lines c))) @ [CR, LF]"

section \<open>Event construction and row parsing\<close>

text \<open>
  \<^verbatim>\<open>create_calendar_event\<close>, with the reading of the clock (\<^verbatim>\<open>datetime.now()\<close>) as an
  argument. The location is \<^verbatim>\<open>None\<close> or a string.
\<close>

definition create_calendar_event ::
  "datetime \<Rightarrow> cell_value \<Rightarrow> cell_value \<Rightarrow> datetime \<Rightarrow> datetime \<Rightarrow> string option \<Rightarrow> component"
where
  "create_calendar_event now title description start_dt end_dt location =
     (let ev = Event;
          ev = add_text ''summary'' title ev;
          ev = add_text ''description'' description ev;
          ev = add_datetime ''dtstart'' start_dt ev;
          ev = add_datetime ''dtend'' end_dt ev;
          ev = add_datetime ''dtstamp'' now ev
      in case location of
           None \<Rightarrow> ev
         | Some l \<Rightarrow> setitem ''location'' (vText l) ev)"

text \<open>
  The body of the loop of \<^verbatim>\<open>load_events\<close>: unpacking a row into six names raises
  \<^verbatim>\<open>ValueError\<close> unless the row has six cells.
\<close>

definition row_event :: "datetime \<Rightarrow> cell_value list \<Rightarrow> error + component" where
  "row_event now row =
     (if length row \<noteq> 6 then Inl ValueError
      else
        let title = row ! 0;
            description = row ! 1;
            location = py_str (row ! 5);
            date = row ! 2;
            start_time = row ! 3;
            end_time = row ! 4
        in case combine date start_time of
             Inl e \<Rightarrow> Inl e
           | Inr start_dt \<Rightarrow>
               (case combine date end_time of
                  Inl e \<Rightarrow> Inl e
                | Inr end_dt \<Rightarrow>
                    Inr (create_calendar_event now title description start_dt end_dt
                           (Some location))))"

text \<open>
  The loop over the rows, appending to \<^verbatim>\<open>events\<close>. The clock is a function from the
  number of earlier readings to the time read; \<^verbatim>\<open>load_events\<close> is its only reader,
  once per row.
\<close>

fun load_rows ::
  "(nat \<Rightarrow> datetime) \<Rightarrow> cell_value list list \<Rightarrow> component list \<Rightarrow> error + component list"
where
  "load_rows now [] events = Inr events"
| "load_rows now (row # rows) events =
     (case row_event (now (length events)) row of
        Inl e \<Rightarrow> Inl e
      | Inr ev \<Rightarrow> load_rows now rows (events @ [ev]))"

text \<open>
  A file holds a workbook (the rows of its active sheet), the bytes of a calendar
  document, or something else. \<^verbatim>\<open>load_workbook\<close> fails on a missing file and on a file that is not
  a workbook; \<^verbatim>\<open>next(rows)\<close> raises \<^verbatim>\<open>StopIteration\<close> on a sheet with no row.
\<close>

datatype file_content =
    XlsxFile "cell_value list list"
  | IcsFile string
  | OtherFile string

type_synonym filesystem = "string \<rightharpoonup> file_content"

definition load_workbook :: "filesystem \<Rightarrow> string \<Rightarrow> error + cell_value list list" where
  "load_workbook fs filename =
     (case fs filename of
        None \<Rightarrow> Inl FileNotFoundError
      | Some (XlsxFile sheet) \<Rightarrow> Inr sheet
      | Some _ \<Rightarrow> Inl BadZipFile)"

definition load_events ::
  "(nat \<Rightarrow> datetime) \<Rightarrow> filesystem \<Rightarrow> string \<Rightarrow> error + component list"
where
  "load_events now fs filename =
     (case load_workbook fs filename of
        Inl e \<Rightarrow> Inl e
      | Inr sheet \<Rightarrow>
          (case sheet of
             [] \<Rightarrow> Inl StopIteration
           | header # rows \<Rightarrow> load_rows now rows []))"

section \<open>Paths and the command line\<close>

text \<open>
  A path is the string the user typed; the file system is a map from such strings.
  \<^verbatim>\<open>Path.name\<close> is the last component of the path that is neither empty nor a single
  dot; \<^verbatim>\<open>Path.suffix\<close> starts at the last dot of the name, unless that dot is the
  first or the last character of the name.
\<close>

fun split_path :: "string \<Rightarrow> string list" where
  "split_path [] = [[]]"
| "split_path (c # cs) =
     (if c = CHR ''/'' then [] # split_path cs
      else (case split_path cs of [] \<Rightarrow> [[c]] | p # ps \<Rightarrow> (c # p) # ps))"

definition path_name :: "string \<Rightarrow> string" where
  "path_name s =
     (case filter (\<lambda>p. p \<noteq> [] \<and> p \<noteq> ''.'') (split_path s) of
        [] \<Rightarrow> []
      | p # ps \<Rightarrow> last (p # ps))"

fun rfind :: "char \<Rightarrow> string \<Rightarrow> int" where
  "rfind c [] = - 1"
| "rfind c (x # xs) =
     (let r = rfind c xs in if 0 \<le> r then r + 1 else if x = c then 0 else - 1)"

definition path_suffix :: "string \<Rightarrow> string" where
  "path_suffix s =
     (let name = path_name s; i = rfind CHR ''.'' name
      in if 0 < i \<and> i < int (length name) - 1 then drop (nat i) name else [])"

definition joinpath :: "string \<Rightarrow> string \<Rightarrow> string" where
  "joinpath dir name = dir @ ''/'' @ name"

text \<open>The two checks that \<^verbatim>\<open>parse_args\<close> gives to argparse as argument types.\<close>

definition ics_file :: "string \<Rightarrow> string + string" where
  "ics_file s =
     (let ext = lower (path_suffix s)
      in if ext \<noteq> ''.ics''
         then Inl (''File must be a Calendar file (.ics), but got '' @ ext)
         else Inr s)"

definition xlsx_file :: "string \<Rightarrow> string + string" where
  "xlsx_file s =
     (let ext = lower (path_suffix s)
      in if ext \<noteq> ''.xlsx''
         then Inl (''File must be an Excel spreadsheet (.xlsx), but got '' @ ext)
         else Inr s)"

text \<open>
  The command line, as the sequence of its options: \<^verbatim>\<open>--version\<close>, \<^verbatim>\<open>--help\<close> (which
  argparse adds), \<^verbatim>\<open>--debug\<close>, \<^verbatim>\<open>--file\<close> and \<^verbatim>\<open>--output\<close> with their arguments.
  argparse handles the options from left to right: it converts the argument of an
  option with the option's type and ends the run with a usage error (exit status 2)
  when the type raises \<^verbatim>\<open>ArgumentTypeError\<close>; \<^verbatim>\<open>--version\<close> and \<^verbatim>\<open>--help\<close> print
  and end the run where they stand.
\<close>

datatype opt = Version | Help | Debug | File string | Output string

record args =
  args_debug :: bool
  args_file :: "string option"
  args_output :: string

datatype outcome =
    Completed
  | VersionExit
  | HelpExit
  | ArgumentError string
  | Uncaught error

fun parse_opts :: "opt list \<Rightarrow> args \<Rightarrow> outcome + args" where
  "parse_opts [] a = Inr a"
| "parse_opts (Version # rest) a = Inl VersionExit"
| "parse_opts (Help # rest) a = Inl HelpExit"
| "parse_opts (Debug # rest) a = parse_opts rest (a\<lparr>args_debug := True\<rparr>)"
| "parse_opts (File s # rest) a =
     (case xlsx_file s of
        Inl msg \<Rightarrow> Inl (ArgumentError msg)
      | Inr p \<Rightarrow> parse_opts rest (a\<lparr>args_file := Some p\<rparr>))"
| "parse_opts (Output s # rest) a =
     (case ics_file s of
        Inl msg \<Rightarrow> Inl (ArgumentError msg)
      | Inr p \<Rightarrow> parse_opts rest (a\<lparr>args_output := p\<rparr>))"

definition parse_args :: "string \<Rightarrow> opt list \<Rightarrow> outcome + args" where
  "parse_args dir argv =
     parse_opts argv
       \<lparr>args_debug = False, args_file = None, args_output = joinpath dir ''output.ics''\<rparr>"

section \<open>The run\<close>

text \<open>
  What a run can see and change: the files, and the external programs it has started.
  What it cannot change: the directory of the script, the clock, which paths can be
  opened for writing, whether standard input is at its end, and what the user does to
  the files between the prompt and pressing RETURN. Logging is not modelled.
\<close>

record world =
  files :: filesystem
  launched :: "string list list"

record env =
  script_dir :: string
  now :: "nat \<Rightarrow> datetime"
  writable :: "string \<Rightarrow> bool"
  stdin_eof :: bool
  user_edit :: "filesystem \<Rightarrow> filesystem"

definition workbook_save :: "string \<Rightarrow> cell_value list list \<Rightarrow> env \<Rightarrow> world \<Rightarrow> error + world" where
  "workbook_save filename sheet e w =
     (if writable e filename
      then Inr (w\<lparr>files := (files w)(filename \<mapsto> XlsxFile sheet)\<rparr>)
      else Inl OSError)"

definition subprocess_call :: "string list \<Rightarrow> world \<Rightarrow> world" where
  "subprocess_call cmd w = w\<lparr>launched := launched w @ [cmd]\<rparr>"

definition input_prompt :: "env \<Rightarrow> world \<Rightarrow> error + world" where
  "input_prompt e w =
     (if stdin_eof e then Inl EOFError
      else Inr (w\<lparr>files := user_edit e (files w)\<rparr>))"

definition headers :: "cell_value list" where
  "headers =
     [VStr ''Title'', VStr ''Description'', VStr ''Date'', VStr ''Start time'',
      VStr ''End time'', VStr ''Location'']"

definition events_file :: "env \<Rightarrow> string" where
  "events_file e = joinpath (script_dir e) ''events.xlsx''"

definition create_event_file :: "env \<Rightarrow> world \<Rightarrow> (error + string) \<times> world" where
  "create_event_file e w =
     (let filename = joinpath (script_dir e) ''events.xlsx''
      in case workbook_save filename [headers] e w of
           Inl err \<Rightarrow> (Inl err, w)
         | Inr w1 \<Rightarrow>
             (let w2 = subprocess_call
                         [''open'', ''-a'', ''/Applications/Microsoft Excel.app'', filename] w1
              in case input_prompt e w2 of
                   Inl err \<Rightarrow> (Inl err, w2)
                 | Inr w3 \<Rightarrow> (Inr filename, w3)))"

definition delete_temporary_files :: "env \<Rightarrow> world \<Rightarrow> world" where
  "delete_temporary_files e w =
     (let events_file = joinpath (script_dir e) ''events.xlsx''
      in if files w events_file \<noteq> None
         then w\<lparr>files := (files w)(events_file := None)\<rparr>
         else w)"

definition export_ics :: "component list \<Rightarrow> string \<Rightarrow> env \<Rightarrow> world \<Rightarrow> error + world" where
  "export_ics events filename e w =
     (let cal = foldl (\<lambda>cal ev. add_component ev cal) Calendar events
      in if writable e filename
         then Inr (w\<lparr>files := (files w)(filename \<mapsto> IcsFile (to_ical cal))\<rparr>)
         else Inl OSError)"

definition main :: "opt list \<Rightarrow> env \<Rightarrow> world \<Rightarrow> outcome \<times> world" where
  "main argv e w =
     (case parse_args (script_dir e) argv of
        Inl exit \<Rightarrow> (exit, w)
      | Inr a \<Rightarrow>
          (case (case args_file a of
                   None \<Rightarrow> create_event_file e w
                 | Some f \<Rightarrow> (Inr f, w)) of
             (Inl err, w1) \<Rightarrow> (Uncaught err, w1)
           | (Inr f, w1) \<Rightarrow>
               (case load_events (now e) (files w1) f of
                  Inl err \<Rightarrow> (Uncaught err, w1)
                | Inr events \<Rightarrow>
                    (case export_ics events (args_output a) e w1 of
                       Inl err \<Rightarrow> (Uncaught err, w1)
                     | Inr w2 \<Rightarrow>
                         (let w3 = delete_temporary_files e w2;
                              w4 = subprocess_call [''open'', ''-R'', args_output a] w3
                          in (Completed, w4))))))"

section \<open>Predicates of the statements\<close>

text \<open>
  A row that \<^verbatim>\<open>load_events\<close> can parse: six cells, a date (or datetime) in the third,
  times of day in the fourth and fifth.
\<close>

definition valid_row :: "cell_value list \<Rightarrow> bool" where
  "valid_row r \<longleftrightarrow>
     length r = 6 \<and> as_date (r ! 2) \<noteq> None \<and> as_time (r ! 3) \<noteq> None \<and>
     as_time (r ! 4) \<noteq> None"

text \<open>The order of Python on naive times and datetimes: field by field.\<close>

definition time_less :: "time \<Rightarrow> time \<Rightarrow> bool" where
  "time_less a b \<longleftrightarrow>
     hour a < hour b \<or>
     (hour a = hour b \<and>
      (minute a < minute b \<or>
       (minute a = minute b \<and>
        (second a < second b \<or>
         (second a = second b \<and> microsecond a < microsecond b)))))"

definition datetime_less :: "datetime \<Rightarrow> datetime \<Rightarrow> bool" where
  "datetime_less a b \<longleftrightarrow>
     year a < year b \<or>
     (year a = year b \<and>
      (month a < month b \<or>
       (month a = month b \<and>
        (day a < day b \<or>
         (day a = day b \<and>
          (dt_hour a < dt_hour b \<or>
           (dt_hour a = dt_hour b \<and>
            (dt_minute a < dt_minute b \<or>
             (dt_minute a = dt_minute b \<and>
              (dt_second a < dt_second b \<or>
               (dt_second a = dt_second b \<and>
                dt_microsecond a < dt_microsecond b)))))))))))"

text \<open>A text that \<^verbatim>\<open>escape_char\<close> has nothing to do on.\<close>

definition plain :: "string \<Rightarrow> bool" where
  "plain s = list_all (\<lambda>c. c \<notin> {backslash, CHR '';'', CHR '','', CR, LF}) s"

text \<open>An option whose argument fails the check of its type.\<close>

fun rejected :: "opt \<Rightarrow> bool" where
  "rejected (File s) \<longleftrightarrow> lower (path_suffix s) \<noteq> ''.xlsx''"
| "rejected (Output s) \<longleftrightarrow> lower (path_suffix s) \<noteq> ''.ics''"
| "rejected _ \<longleftrightarrow> False"

section \<open>Example inputs\<close>

text \<open>
  The row of the specification's example, rows that differ from it in one cell, a
  clock, and file systems and environments for whole runs. The script is installed in
  \<^verbatim>\<open>/app\<close>.
\<close>

definition may_day :: cell_value where
  "may_day =
     VDateTime \<lparr>year = 2024, month = 5, day = 1, dt_hour = 0, dt_minute = 0, dt_second = 0,
                dt_microsecond = 0, dt_tzinfo = None\<rparr>"

definition nine :: cell_value where
  "nine = VTime \<lparr>hour = 9, minute = 0, second = 0, microsecond = 0\<rparr>"

definition quarter_past_nine :: cell_value where
  "quarter_past_nine = VTime \<lparr>hour = 9, minute = 15, second = 0, microsecond = 0\<rparr>"

definition standup_row :: "cell_value list" where
  "standup_row =
     [VStr ''Standup'', VStr ''Daily sync'', may_day, nine, quarter_past_nine, VStr ''Room A'']"

definition backwards_row :: "cell_value list" where
  "backwards_row =
     [VStr ''Standup'', VStr ''Daily sync'', may_day, quarter_past_nine, nine, VStr ''Room A'']"

definition no_location_row :: "cell_value list" where
  "no_location_row =
     [VStr ''Standup'', VStr ''Daily sync'', may_day, nine, quarter_past_nine, VNone]"

definition room_number_row :: "cell_value list" where
  "room_number_row =
     [VStr ''Standup'', VStr ''Daily sync'', may_day, nine, quarter_past_nine, VInt 12]"

definition no_date_row :: "cell_value list" where
  "no_date_row =
     [VStr ''Standup'', VStr ''Daily sync'', VNone, nine, quarter_past_nine, VStr ''Room A'']"


definition retro_row :: "cell_value list" where
  "retro_row =
     [VStr ''Retro'', VStr ''Sprint review'',
      VDate \<lparr>year = 2024, month = 5, day = 3\<rparr>,
      VTime \<lparr>hour = 14, minute = 30, second = 0, microsecond = 0\<rparr>,
      VTime \<lparr>hour = 15, minute = 0, second = 0, microsecond = 0\<rparr>,
      VStr ''Room B'']"

definition noon_clock :: "nat \<Rightarrow> datetime" where
  "noon_clock i =
     \<lparr>year = 2024, month = 4, day = 30, dt_hour = 12, dt_minute = 0, dt_second = i,
      dt_microsecond = 0, dt_tzinfo = None\<rparr>"

definition sheet_of :: "cell_value list \<Rightarrow> filesystem" where
  "sheet_of row = [''/data/in.xlsx'' \<mapsto> XlsxFile [headers, row]]"

definition quiet_env :: env where
  "quiet_env =
     \<lparr>script_dir = ''/app'', now = noon_clock, writable = (\<lambda>p. True), stdin_eof = False,
      user_edit = (\<lambda>fs. fs)\<rparr>"

definition readonly_output_env :: env where
  "readonly_output_env =
     \<lparr>script_dir = ''/app'', now = noon_clock, writable = (\<lambda>p. p = ''/app/events.xlsx''),
      stdin_eof = False, user_edit = (\<lambda>fs. fs)\<rparr>"

definition empty_world :: world where
  "empty_world = \<lparr>files = Map.empty, launched = []\<rparr>"

definition leftover_world :: world where
  "leftover_world =
     \<lparr>files = [''/data/in.xlsx'' \<mapsto> XlsxFile [headers, standup_row],
               ''/app/events.xlsx'' \<mapsto> XlsxFile [headers, backwards_row]],
      launched = []\<rparr>"

definition two_rows_world :: world where
  "two_rows_world =
     \<lparr>files = [''/data/in.xlsx'' \<mapsto> XlsxFile [headers, standup_row, retro_row]],
      launched = []\<rparr>"

section \<open>Lemmas on the functions\<close>

lemma upper_names:
  "upper ''summary'' = ''SUMMARY''" "upper ''description'' = ''DESCRIPTION''"
  "upper ''dtstart'' = ''DTSTART''" "upper ''dtend'' = ''DTEND''"
  "upper ''dtstamp'' = ''DTSTAMP''" "upper ''location'' = ''LOCATION''"
  by (simp_all add: upper_def upper_char_def)

lemma upper_idem:
  "upper ''SUMMARY'' = ''SUMMARY''" "upper ''DESCRIPTION'' = ''DESCRIPTION''"
  "upper ''DTSTART'' = ''DTSTART''" "upper ''DTEND'' = ''DTEND''"
  "upper ''DTSTAMP'' = ''DTSTAMP''" "upper ''LOCATION'' = ''LOCATION''"
  by (simp_all add: upper_def upper_char_def)

lemma lower_names:
  "lower ''dtstart'' = ''dtstart''" "lower ''dtend'' = ''dtend''"
  "lower ''dtstamp'' = ''dtstamp''"
  by (simp_all add: lower_def lower_char_def)

lemma create_calendar_event_Some:
  "create_calendar_event n title description start_dt end_dt (Some l) =
     Component ''VEVENT''
       [(''SUMMARY'', vText (py_str title)), (''DESCRIPTION'', vText (py_str description)),
        (''DTSTART'', vDDDTypes start_dt), (''DTEND'', vDDDTypes end_dt),
        (''DTSTAMP'', vDDDTypes (n\<lparr>dt_tzinfo := Some UTC\<rparr>)), (''LOCATION'', vText l)] []"
  by (simp add: create_calendar_event_def Event_def add_text_def add_datetime_def
      add_encoded_def getitem_def setitem_def upper_names lower_names Let_def)

lemma create_calendar_event_None:
  "create_calendar_event n title description start_dt end_dt None =
     Component ''VEVENT''
       [(''SUMMARY'', vText (py_str title)), (''DESCRIPTION'', vText (py_str description)),
        (''DTSTART'', vDDDTypes start_dt), (''DTEND'', vDDDTypes end_dt),
        (''DTSTAMP'', vDDDTypes (n\<lparr>dt_tzinfo := Some UTC\<rparr>))] []"
  by (simp add: create_calendar_event_def Event_def add_text_def add_datetime_def
      add_encoded_def getitem_def setitem_def upper_names lower_names Let_def)


lemma combine_Some:
  "as_date d = Some d' \<Longrightarrow> as_time t = Some t' \<Longrightarrow>
   combine d t =
     Inr \<lparr>year = year d', month = month d', day = day d',
          dt_hour = hour t', dt_minute = minute t', dt_second = second t',
          dt_microsecond = microsecond t', dt_tzinfo = None\<rparr>"
  by (simp add: combine_def)

lemma combine_bad:
  "as_date d = None \<or> as_time t = None \<Longrightarrow> combine d t = Inl TypeError"
  by (auto simp: combine_def split: option.splits)

lemma row_event_valid:
  assumes "length r = 6" "as_date (r ! 2) = Some d" "as_time (r ! 3) = Some t1"
    "as_time (r ! 4) = Some t2"
  shows "row_event n r =
     Inr (create_calendar_event n (r ! 0) (r ! 1)
            \<lparr>year = year d, month = month d, day = day d,
             dt_hour = hour t1, dt_minute = minute t1, dt_second = second t1,
             dt_microsecond = microsecond t1, dt_tzinfo = None\<rparr>
            \<lparr>year = year d, month = month d, day = day d,
             dt_hour = hour t2, dt_minute = minute t2, dt_second = second t2,
             dt_microsecond = microsecond t2, dt_tzinfo = None\<rparr>
            (Some (py_str (r ! 5))))"
  using assms by (simp add: row_event_def combine_Some)

lemma row_event_invalid:
  assumes "length r = 6" "\<not> valid_row r"
  shows "row_event n r = Inl TypeError"
proof -
  from assms have bad: "as_date (r ! 2) = None \<or> as_time (r ! 3) = None \<or> as_time (r ! 4) = None"
    by (simp add: valid_row_def)
  show ?thesis
  proof (cases "as_date (r ! 2) = None \<or> as_time (r ! 3) = None")
    case True
    then have "combine (r ! 2) (r ! 3) = Inl TypeError" by (rule combine_bad)
    with assms(1) show ?thesis by (simp add: row_event_def)
  next
    case False
    with bad have "as_time (r ! 4) = None" by blast
    then have e: "combine (r ! 2) (r ! 4) = Inl TypeError" by (simp add: combine_bad)
    from False obtain d t where "as_date (r ! 2) = Some d" "as_time (r ! 3) = Some t" by auto
    then have "\<exists>s. combine (r ! 2) (r ! 3) = Inr s" by (simp add: combine_Some)
    with e assms(1) show ?thesis by (auto simp: row_event_def)
  qed
qed

lemma row_event_Inr_valid:
  "row_event n r = Inr ev \<Longrightarrow> valid_row r"
  by (auto simp: row_event_def valid_row_def combine_def Let_def split: if_splits option.splits sum.splits)

lemma load_rows_Inr:
  "load_rows clock rows acc = Inr evs \<Longrightarrow>
   \<exists>new. evs = acc @ new \<and> length new = length rows \<and>
     (\<forall>i<length rows. row_event (clock (length acc + i)) (rows ! i) = Inr (new ! i))"
proof (induction rows arbitrary: acc)
  case Nil
  then show ?case by simp
next
  case (Cons row rows)
  from Cons.prems obtain ev where
    ev: "row_event (clock (length acc)) row = Inr ev" and
    rest: "load_rows clock rows (acc @ [ev]) = Inr evs"
    by (auto split: sum.splits)
  from Cons.IH [OF rest] obtain new where
    new: "evs = (acc @ [ev]) @ new" "length new = length rows"
      "\<forall>i<length rows. row_event (clock (length (acc @ [ev]) + i)) (rows ! i) = Inr (new ! i)"
    by blast
  have "\<forall>i<length (row # rows).
          row_event (clock (length acc + i)) ((row # rows) ! i) = Inr ((ev # new) ! i)"
  proof (intro allI impI)
    fix i assume i: "i < length (row # rows)"
    show "row_event (clock (length acc + i)) ((row # rows) ! i) = Inr ((ev # new) ! i)"
    proof (cases i)
      case 0
      with ev show ?thesis by simp
    next
      case (Suc j)
      with i new(3) show ?thesis by simp
    qed
  qed
  with new(1,2) show ?case by (intro exI [of _ "ev # new"]) simp
qed

lemma load_rows_valid:
  "\<forall>r\<in>set rows. valid_row r \<Longrightarrow> \<exists>evs. load_rows clock rows acc = Inr evs"
proof (induction rows arbitrary: acc)
  case Nil
  then show ?case by simp
next
  case (Cons row rows)
  then have "valid_row row" by simp
  then obtain d t1 t2 where "length row = 6" "as_date (row ! 2) = Some d"
    "as_time (row ! 3) = Some t1" "as_time (row ! 4) = Some t2"
    by (auto simp: valid_row_def)
  from row_event_valid [OF this] obtain ev where
    "row_event (clock (length acc)) row = Inr ev" by blast
  moreover from Cons have "\<exists>evs. load_rows clock rows (acc @ [ev]) = Inr evs" by simp
  ultimately show ?case by simp
qed

lemma load_rows_TypeError:
  "\<forall>r\<in>set rows. length r = 6 \<Longrightarrow> \<exists>r\<in>set rows. \<not> valid_row r \<Longrightarrow>
   load_rows clock rows acc = Inl TypeError"
proof (induction rows arbitrary: acc)
  case Nil
  then show ?case by simp
next
  case (Cons row rows)
  show ?case
  proof (cases "valid_row row")
    case False
    with Cons.prems(1) have "row_event (clock (length acc)) row = Inl TypeError"
      by (simp add: row_event_invalid)
    then show ?thesis by simp
  next
    case True
    with Cons.prems have "\<forall>r\<in>set rows. length r = 6" "\<exists>r\<in>set rows. \<not> valid_row r"
      by auto
    then have rest: "\<And>acc'. load_rows clock rows acc' = Inl TypeError" by (rule Cons.IH)
    from True obtain d t1 t2 where "length row = 6" "as_date (row ! 2) = Some d"
      "as_time (row ! 3) = Some t1" "as_time (row ! 4) = Some t2"
      by (auto simp: valid_row_def)
    from row_event_valid [OF this] obtain ev where
      "row_event (clock (length acc)) row = Inr ev" by blast
    with rest show ?thesis by simp
  qed
qed

lemma load_events_sheet:
  "fs filename = Some (XlsxFile (header # rows)) \<Longrightarrow>
   load_events clock fs filename = load_rows clock rows []"
  by (simp add: load_events_def load_workbook_def)

lemma load_events_nth:
  assumes "fs filename = Some (XlsxFile (header # rows))"
    "load_events clock fs filename = Inr events"
  shows "length events = length rows \<and>
    (\<forall>i<length rows. row_event (clock i) (rows ! i) = Inr (events ! i))"
  using load_rows_Inr [of clock rows "[]" events] assms
  by (auto simp: load_events_sheet)

lemma foldl_add_component:
  "foldl (\<lambda>cal ev. add_component ev cal) c events =
     Component (cname c) (props c) (subcomponents c @ events)"
  by (induction events arbitrary: c) (simp_all add: add_component_def)

lemma export_ics_writable:
  "writable e filename \<Longrightarrow>
   export_ics events filename e w =
     Inr (w\<lparr>files := (files w)(filename \<mapsto> IcsFile (to_ical (Component ''VCALENDAR'' [] events)))\<rparr>)"
  by (simp add: export_ics_def foldl_add_component Calendar_def)

lemma getitem_event:
  "getitem (Component ''VEVENT''
       [(''SUMMARY'', a), (''DESCRIPTION'', b), (''DTSTART'', c), (''DTEND'', d),
        (''DTSTAMP'', f), (''LOCATION'', g)] []) name =
     (if upper name = ''SUMMARY'' then Some a
      else if upper name = ''DESCRIPTION'' then Some b
      else if upper name = ''DTSTART'' then Some c
      else if upper name = ''DTEND'' then Some d
      else if upper name = ''DTSTAMP'' then Some f
      else if upper name = ''LOCATION'' then Some g
      else None)"
  by (simp add: getitem_def)

lemma load_events_valid_nth:
  assumes "fs filename = Some (XlsxFile (header # rows))" "\<forall>r\<in>set rows. valid_row r"
  shows "\<exists>events. load_events clock fs filename = Inr events \<and> length events = length rows \<and>
    (\<forall>i<length rows. row_event (clock i) (rows ! i) = Inr (events ! i))"
proof -
  from load_rows_valid [OF assms(2)] obtain events where
    "load_rows clock rows [] = Inr events" by blast
  with assms(1) have l: "load_events clock fs filename = Inr events"
    by (simp add: load_events_sheet)
  with load_events_nth [OF assms(1) l] show ?thesis by blast
qed

lemma load_events_Inr_sheet:
  "load_events clock fs filename = Inr events \<Longrightarrow>
   \<exists>header rows. fs filename = Some (XlsxFile (header # rows))"
  by (auto simp: load_events_def load_workbook_def
      split: option.splits file_content.splits list.splits sum.splits)

lemma row_event_props:
  assumes "row_event n r = Inr ev"
  shows "\<exists>d t1 t2. as_date (r ! 2) = Some d \<and> as_time (r ! 3) = Some t1 \<and>
    as_time (r ! 4) = Some t2 \<and>
    ev = Component ''VEVENT''
       [(''SUMMARY'', vText (py_str (r ! 0))), (''DESCRIPTION'', vText (py_str (r ! 1))),
        (''DTSTART'', vDDDTypes
           \<lparr>year = year d, month = month d, day = day d,
            dt_hour = hour t1, dt_minute = minute t1, dt_second = second t1,
            dt_microsecond = microsecond t1, dt_tzinfo = None\<rparr>),
        (''DTEND'', vDDDTypes
           \<lparr>year = year d, month = month d, day = day d,
            dt_hour = hour t2, dt_minute = minute t2, dt_second = second t2,
            dt_microsecond = microsecond t2, dt_tzinfo = None\<rparr>),
        (''DTSTAMP'', vDDDTypes (n\<lparr>dt_tzinfo := Some UTC\<rparr>)),
        (''LOCATION'', vText (py_str (r ! 5)))] []"
proof -
  from assms have "valid_row r" by (rule row_event_Inr_valid)
  then obtain d t1 t2 where v: "length r = 6" "as_date (r ! 2) = Some d"
    "as_time (r ! 3) = Some t1" "as_time (r ! 4) = Some t2"
    by (auto simp: valid_row_def)
  from row_event_valid [OF v, of n] assms v(2-4) show ?thesis
    by (simp add: create_calendar_event_Some)
qed

lemma example_valid:
  "valid_row standup_row" "valid_row backwards_row" "valid_row no_location_row"
  "valid_row room_number_row" "\<not> valid_row no_date_row"
  by (simp_all add: valid_row_def standup_row_def backwards_row_def no_location_row_def
      room_number_row_def no_date_row_def may_day_def nine_def quarter_past_nine_def)

lemma example_lengths:
  "length standup_row = 6" "length backwards_row = 6" "length no_location_row = 6"
  "length room_number_row = 6" "length no_date_row = 6"
  by (simp_all add: standup_row_def backwards_row_def no_location_row_def
      room_number_row_def no_date_row_def)

lemma sort_event_keys:
  "sort [''SUMMARY'', ''DESCRIPTION'', ''DTSTART'', ''DTEND'', ''DTSTAMP'', ''LOCATION''] =
     [''DESCRIPTION'', ''DTEND'', ''DTSTAMP'', ''DTSTART'', ''LOCATION'', ''SUMMARY'']"
  by code_simp

lemma canon_event_keys:
  "filter (\<lambda>k. k \<in> set [''SUMMARY'', ''DESCRIPTION'', ''DTSTART'', ''DTEND'', ''DTSTAMP'',
       ''LOCATION'']) (canonical_order ''VEVENT'') =
     [''SUMMARY'', ''DTSTART'', ''DTEND'', ''DTSTAMP'']"
  by code_simp

lemma other_event_keys:
  "filter (\<lambda>k. k \<notin> set [''SUMMARY'', ''DTSTART'', ''DTEND'', ''DTSTAMP''])
     [''DESCRIPTION'', ''DTEND'', ''DTSTAMP'', ''DTSTART'', ''LOCATION'', ''SUMMARY''] =
     [''DESCRIPTION'', ''LOCATION'']"
  by code_simp

lemma sorted_keys_event:
  "sorted_keys ''VEVENT''
     [(''SUMMARY'', a), (''DESCRIPTION'', b), (''DTSTART'', c), (''DTEND'', d),
      (''DTSTAMP'', f), (''LOCATION'', g)] =
     [''SUMMARY'', ''DTSTART'', ''DTEND'', ''DTSTAMP'', ''DESCRIPTION'', ''LOCATION'']"
  unfolding sorted_keys_def Let_def
  by (simp only: list.map fst_conv sort_event_keys canon_event_keys other_event_keys append.simps)

lemma replace_absent:
  "old \<noteq> [] \<Longrightarrow> hd old \<notin> set s \<Longrightarrow> replace old new s = s"
proof (induction s)
  case Nil
  then show ?case by simp
next
  case (Cons c cs)
  then have "take (length old) (c # cs) \<noteq> old"
    by (cases old) auto
  with Cons show ?case by simp
qed

lemma escape_char_plain:
  assumes "plain s"
  shows "escape_char s = s"
proof -
  from assms have "backslash \<notin> set s" "CHR '';'' \<notin> set s" "CHR '','' \<notin> set s"
    "CR \<notin> set s" "LF \<notin> set s"
    by (auto simp: plain_def list_all_iff)
  then show ?thesis by (simp add: escape_char_def replace_absent)
qed

lemma escape_char_names:
  "escape_char ''VEVENT'' = ''VEVENT''" "escape_char ''VCALENDAR'' = ''VCALENDAR''"
  by (rule escape_char_plain, simp add: plain_def backslash_def CR_def LF_def)+

lemma component_lines_event:
  "component_lines (Component ''VEVENT''
       [(''SUMMARY'', vText a), (''DESCRIPTION'', vText b), (''DTSTART'', vDDDTypes c),
        (''DTEND'', vDDDTypes d), (''DTSTAMP'', vDDDTypes f), (''LOCATION'', vText g)] []) =
     [''BEGIN:VEVENT'', ''SUMMARY:'' @ escape_char a, ''DTSTART:'' @ vDatetime_to_ical c,
      ''DTEND:'' @ vDatetime_to_ical d, ''DTSTAMP:'' @ vDatetime_to_ical f,
      ''DESCRIPTION:'' @ escape_char b, ''LOCATION:'' @ escape_char g, ''END:VEVENT'']"
  by (simp add: component_lines_def sorted_keys_event content_line_def escape_char_names)

lemma component_lines_calendar:
  "component_lines (Component ''VCALENDAR'' [] events) =
     ''BEGIN:VCALENDAR'' # concat (map component_lines events) @ [''END:VCALENDAR'']"
  by (simp add: component_lines_def [abs_def] sorted_keys_def canonical_order_def
      content_line_def escape_char_names map_concat comp_def)







lemma load_one_row:
  "length r = 6 \<Longrightarrow> load_events clock (sheet_of r) ''/data/in.xlsx'' =
     (case row_event (clock 0) r of Inl e \<Rightarrow> Inl e | Inr ev \<Rightarrow> Inr [ev])"
  by (simp add: load_events_def load_workbook_def sheet_of_def split: sum.splits)

lemma main_with_file:
  assumes "parse_args (script_dir e) argv = Inr a" "args_file a = Some f"
  shows "main argv e w =
    (case load_events (now e) (files w) f of
       Inl err \<Rightarrow> (Uncaught err, w)
     | Inr events \<Rightarrow>
         (case export_ics events (args_output a) e w of
            Inl err \<Rightarrow> (Uncaught err, w)
          | Inr w2 \<Rightarrow>
              (Completed,
               subprocess_call [''open'', ''-R'', args_output a]
                 (delete_temporary_files e w2))))"
  using assms by (simp add: main_def Let_def split: sum.splits)

lemma suffix_examples:
  "lower (path_suffix ''/data/in.xlsx'') = ''.xlsx''"
  "lower (path_suffix ''/data/out.ics'') = ''.ics''"
  "lower (path_suffix ''/nowhere/out.ics'') = ''.ics''"
  "lower (path_suffix ''notes.txt'') = ''.txt''"
  by (simp_all add: path_suffix_def path_name_def lower_def lower_char_def Let_def)

lemma parse_file_example:
  "parse_args ''/app'' [File ''/data/in.xlsx''] =
     Inr \<lparr>args_debug = False, args_file = Some ''/data/in.xlsx'',
          args_output = ''/app/output.ics''\<rparr>"
  by (simp add: parse_args_def xlsx_file_def suffix_examples joinpath_def)

lemma parse_opts_rejected:
  "rejected x \<Longrightarrow>
   \<exists>exit. parse_opts (pre @ x # post) a = Inl exit \<and>
     (exit = VersionExit \<or> exit = HelpExit \<or> (\<exists>msg. exit = ArgumentError msg)) \<and>
     (Version \<notin> set pre \<and> Help \<notin> set pre \<longrightarrow> (\<exists>msg. exit = ArgumentError msg))"
proof (induction pre arbitrary: a)
  case Nil
  then show ?case
    by (cases x) (simp_all add: xlsx_file_def ics_file_def Let_def)
next
  case (Cons y pre)
  show ?case
  proof (cases y)
    case Version
    then show ?thesis by simp
  next
    case Help
    then show ?thesis by simp
  next
    case Debug
    with Cons.IH [OF Cons.prems, of "a\<lparr>args_debug := True\<rparr>"] show ?thesis by simp
  next
    case (File s)
    show ?thesis
    proof (cases "xlsx_file s")
      case (Inl msg)
      with File show ?thesis by simp
    next
      case (Inr p)
      with File Cons.IH [OF Cons.prems, of "a\<lparr>args_file := Some p\<rparr>"] show ?thesis by simp
    qed
  next
    case (Output s)
    show ?thesis
    proof (cases "ics_file s")
      case (Inl msg)
      with Output show ?thesis by simp
    next
      case (Inr p)
      with Output Cons.IH [OF Cons.prems, of "a\<lparr>args_output := p\<rparr>"] show ?thesis by simp
    qed
  qed
qed

lemma delete_temporary_files_files:
  "files (delete_temporary_files e w) = (files w)(events_file e := None)"
  by (auto simp: delete_temporary_files_def events_file_def Let_def)

lemma delete_temporary_files_launched:
  "launched (delete_temporary_files e w) = launched w"
  by (simp add: delete_temporary_files_def Let_def)

lemma delete_temporary_files_absent:
  "files w (events_file e) = None \<Longrightarrow> delete_temporary_files e w = w"
  by (simp add: delete_temporary_files_def events_file_def Let_def)

lemma events_file_quiet: "events_file quiet_env = ''/app/events.xlsx''"
  by (simp add: events_file_def quiet_env_def joinpath_def)

lemma load_leftover:
  "\<exists>ev. load_events noon_clock (files leftover_world) ''/data/in.xlsx'' = Inr [ev]"
proof -
  have f: "files leftover_world ''/data/in.xlsx'' = Some (XlsxFile (headers # [standup_row]))"
    by (simp add: leftover_world_def)
  have v: "\<forall>r\<in>set [standup_row]. valid_row r" by (simp add: example_valid)
  from load_events_valid_nth [of "files leftover_world" "''/data/in.xlsx''" headers
      "[standup_row]" noon_clock, OF f v]
  obtain events where l: "load_events noon_clock (files leftover_world) ''/data/in.xlsx'' = Inr events"
    and len: "length events = 1" by auto
  from len obtain ev where "events = [ev]" by (cases events) auto
  with l show ?thesis by blast
qed

lemma create_event_file_ok:
  assumes "writable e (events_file e)" "\<not> stdin_eof e"
  shows "create_event_file e w =
    (Inr (events_file e),
     \<lparr>files = user_edit e ((files w)(events_file e \<mapsto> XlsxFile [headers])),
      launched = launched w @
        [[''open'', ''-a'', ''/Applications/Microsoft Excel.app'', events_file e]]\<rparr>)"
  using assms
  by (simp add: create_event_file_def workbook_save_def subprocess_call_def input_prompt_def
      events_file_def Let_def)

lemma main_without_file:
  assumes "parse_args (script_dir e) argv = Inr a" "args_file a = None"
    "create_event_file e w = (Inr f, w1)"
  shows "main argv e w =
    (case load_events (now e) (files w1) f of
       Inl err \<Rightarrow> (Uncaught err, w1)
     | Inr events \<Rightarrow>
         (case export_ics events (args_output a) e w1 of
            Inl err \<Rightarrow> (Uncaught err, w1)
          | Inr w2 \<Rightarrow>
              (Completed,
               subprocess_call [''open'', ''-R'', args_output a]
                 (delete_temporary_files e w2))))"
  using assms by (simp add: main_def Let_def split: sum.splits)

lemma export_ics_readonly:
  "\<not> writable e filename \<Longrightarrow> export_ics events filename e w = Inl OSError"
  by (simp add: export_ics_def)

lemma parse_no_options:
  "parse_args ''/app'' [] =
     Inr \<lparr>args_debug = False, args_file = None, args_output = ''/app/output.ics''\<rparr>"
  by (simp add: parse_args_def joinpath_def)

lemma load_template:
  "fs filename = Some (XlsxFile [headers]) \<Longrightarrow> load_events clock fs filename = Inr []"
  by (simp add: load_events_def load_workbook_def)

section \<open>The claims\<close>






text \<open>
  C3. For every row whose date cell holds the date D (or a datetime on the date D)
  and whose time cells hold the times of day T1 and T2, DTSTART has the year, month
  and day of D and the hour, minute, second and microsecond of T1, DTEND has the date
  of D and the time of day of T2, and neither carries a time zone: the fields of the
  cells are copied, none is converted.
\<close>

theorem start_and_end_combine_date_with_times:
  assumes "fs filename = Some (XlsxFile (header # rows))"
    and "\<forall>r\<in>set rows. valid_row r"
    and "i < length rows"
    and "rows ! i ! 2 = VDate d \<or>
         (\<exists>dt. rows ! i ! 2 = VDateTime dt \<and> year dt = year d \<and> month dt = month d \<and>
            day dt = day d)"
    and "rows ! i ! 3 = VTime t1"
    and "rows ! i ! 4 = VTime t2"
  shows "\<exists>events.
    load_events clock fs filename = Inr events \<and>
    i < length events \<and>
    getitem (events ! i) ''dtstart'' =
      Some (vDDDTypes
        \<lparr>year = year d, month = month d, day = day d,
         dt_hour = hour t1, dt_minute = minute t1, dt_second = second t1,
         dt_microsecond = microsecond t1, dt_tzinfo = None\<rparr>) \<and>
    getitem (events ! i) ''dtend'' =
      Some (vDDDTypes
        \<lparr>year = year d, month = month d, day = day d,
         dt_hour = hour t2, dt_minute = minute t2, dt_second = second t2,
         dt_microsecond = microsecond t2, dt_tzinfo = None\<rparr>)"
proof -
  from load_events_valid_nth [of fs filename header rows clock, OF assms(1,2)]
  obtain events where
    l: "load_events clock fs filename = Inr events" "length events = length rows" and
    n: "\<forall>i<length rows. row_event (clock i) (rows ! i) = Inr (events ! i)"
    by blast
  from n assms(3) have r: "row_event (clock i) (rows ! i) = Inr (events ! i)" by simp
  from row_event_props [OF r] obtain d' :: date and u1 u2 :: time where
    a: "as_date (rows ! i ! 2) = Some d'" "as_time (rows ! i ! 3) = Some u1"
      "as_time (rows ! i ! 4) = Some u2" and
    c: "events ! i = Component ''VEVENT''
       [(''SUMMARY'', vText (py_str (rows ! i ! 0))),
        (''DESCRIPTION'', vText (py_str (rows ! i ! 1))),
        (''DTSTART'', vDDDTypes
           \<lparr>year = year d', month = month d', day = day d',
            dt_hour = hour u1, dt_minute = minute u1, dt_second = second u1,
            dt_microsecond = microsecond u1, dt_tzinfo = None\<rparr>),
        (''DTEND'', vDDDTypes
           \<lparr>year = year d', month = month d', day = day d',
            dt_hour = hour u2, dt_minute = minute u2, dt_second = second u2,
            dt_microsecond = microsecond u2, dt_tzinfo = None\<rparr>),
        (''DTSTAMP'', vDDDTypes ((clock i)\<lparr>dt_tzinfo := Some UTC\<rparr>)),
        (''LOCATION'', vText (py_str (rows ! i ! 5)))] []"
    by blast
  from a(2,3) assms(5,6) have t: "u1 = t1" "u2 = t2" by simp_all
  from a(1) assms(4) have "year d' = year d \<and> month d' = month d \<and> day d' = day d"
    by (auto simp: date.truncate_def)
  with c t l assms(3) show ?thesis
    by (simp add: getitem_event upper_names)
qed

theorem start_and_end_combine_date_with_times_witness:
  "\<exists>events.
    load_events noon_clock (files two_rows_world) ''/data/in.xlsx'' = Inr events \<and>
    getitem (events ! 0) ''dtstart'' =
      Some (vDDDTypes
        \<lparr>year = 2024, month = 5, day = 1, dt_hour = 9, dt_minute = 0, dt_second = 0,
         dt_microsecond = 0, dt_tzinfo = None\<rparr>) \<and>
    getitem (events ! 0) ''dtend'' =
      Some (vDDDTypes
        \<lparr>year = 2024, month = 5, day = 1, dt_hour = 9, dt_minute = 15, dt_second = 0,
         dt_microsecond = 0, dt_tzinfo = None\<rparr>) \<and>
    getitem (events ! 1) ''dtstart'' =
      Some (vDDDTypes
        \<lparr>year = 2024, month = 5, day = 3, dt_hour = 14, dt_minute = 30, dt_second = 0,
         dt_microsecond = 0, dt_tzinfo = None\<rparr>) \<and>
    getitem (events ! 1) ''dtend'' =
      Some (vDDDTypes
        \<lparr>year = 2024, month = 5, day = 3, dt_hour = 15, dt_minute = 0, dt_second = 0,
         dt_microsecond = 0, dt_tzinfo = None\<rparr>)"
proof -
  have f: "files two_rows_world ''/data/in.xlsx'' =
      Some (XlsxFile (headers # [standup_row, retro_row]))"
    by (simp add: two_rows_world_def)
  have "valid_row retro_row"
    by (simp add: valid_row_def retro_row_def)
  then have v: "\<forall>r\<in>set [standup_row, retro_row]. valid_row r"
    by (simp add: example_valid)
  have i0: "0 < length [standup_row, retro_row]" and i1: "1 < length [standup_row, retro_row]"
    by simp_all
  have d0: "[standup_row, retro_row] ! 0 ! 2 = VDate \<lparr>year = 2024, month = 5, day = 1\<rparr> \<or>
      (\<exists>dt. [standup_row, retro_row] ! 0 ! 2 = VDateTime dt \<and>
         year dt = year \<lparr>year = 2024, month = 5, day = 1\<rparr> \<and>
         month dt = month \<lparr>year = 2024, month = 5, day = 1\<rparr> \<and>
         day dt = day \<lparr>year = 2024, month = 5, day = 1\<rparr>)"
    by (simp add: standup_row_def may_day_def)
  have s0: "[standup_row, retro_row] ! 0 ! 3 =
      VTime \<lparr>hour = 9, minute = 0, second = 0, microsecond = 0\<rparr>"
    "[standup_row, retro_row] ! 0 ! 4 =
      VTime \<lparr>hour = 9, minute = 15, second = 0, microsecond = 0\<rparr>"
    by (simp_all add: standup_row_def nine_def quarter_past_nine_def)
  have d1: "[standup_row, retro_row] ! 1 ! 2 = VDate \<lparr>year = 2024, month = 5, day = 3\<rparr> \<or>
      (\<exists>dt. [standup_row, retro_row] ! 1 ! 2 = VDateTime dt \<and>
         year dt = year \<lparr>year = 2024, month = 5, day = 3\<rparr> \<and>
         month dt = month \<lparr>year = 2024, month = 5, day = 3\<rparr> \<and>
         day dt = day \<lparr>year = 2024, month = 5, day = 3\<rparr>)"
    by (simp add: retro_row_def)
  have s1: "[standup_row, retro_row] ! 1 ! 3 =
      VTime \<lparr>hour = 14, minute = 30, second = 0, microsecond = 0\<rparr>"
    "[standup_row, retro_row] ! 1 ! 4 =
      VTime \<lparr>hour = 15, minute = 0, second = 0, microsecond = 0\<rparr>"
    by (simp_all add: retro_row_def)
  from start_and_end_combine_date_with_times
      [where fs = "files two_rows_world" and filename = "''/data/in.xlsx''"
         and clock = noon_clock, OF f v i0 d0 s0]
    start_and_end_combine_date_with_times
      [where fs = "files two_rows_world" and filename = "''/data/in.xlsx''"
         and clock = noon_clock, OF f v i1 d1 s1]
  show ?thesis by auto
qed

text \<open>
  C4. An input path without the spreadsheet extension after \<^verbatim>\<open>--file\<close>, or an output
  path without the calendar extension after \<^verbatim>\<open>--output\<close>, makes the program report an
  argument error and exit before any work. The report is not made when \<^verbatim>\<open>--version\<close>
  stands before the option: the run ends there, printing the version.
\<close>

theorem version_before_rejected_path_is_no_argument_error:
  "rejected (File ''notes.txt'') \<and>
   main [Version, File ''notes.txt''] quiet_env leftover_world = (VersionExit, leftover_world)"
  by (simp add: suffix_examples main_def parse_args_def)

text \<open>
  C4, as amended. A command line with such an option ends the run before any work:
  the files and the started programs are as they were. The run ends with an argument
  error, or with the printing of the version or the help; it ends with an argument
  error whenever neither \<^verbatim>\<open>--version\<close> nor \<^verbatim>\<open>--help\<close> stands before the option.
\<close>

theorem rejected_path_ends_run_before_any_work:
  assumes "rejected x"
  shows "snd (main (pre @ x # post) e w) = w \<and>
    (fst (main (pre @ x # post) e w) = VersionExit \<or>
     fst (main (pre @ x # post) e w) = HelpExit \<or>
     (\<exists>msg. fst (main (pre @ x # post) e w) = ArgumentError msg)) \<and>
    (Version \<notin> set pre \<and> Help \<notin> set pre \<longrightarrow>
       (\<exists>msg. fst (main (pre @ x # post) e w) = ArgumentError msg))"
proof -
  from parse_opts_rejected [OF assms] obtain exit where
    p: "parse_args (script_dir e) (pre @ x # post) = Inl exit" and
    k: "exit = VersionExit \<or> exit = HelpExit \<or> (\<exists>msg. exit = ArgumentError msg)"
      "Version \<notin> set pre \<and> Help \<notin> set pre \<longrightarrow> (\<exists>msg. exit = ArgumentError msg)"
    unfolding parse_args_def by blast
  from p have "main (pre @ x # post) e w = (exit, w)" by (simp add: main_def)
  with k show ?thesis by simp
qed

theorem rejected_path_ends_run_before_any_work_witness:
  "rejected (File ''notes.txt'') \<and>
   snd (main ([Debug] @ File ''notes.txt'' # [Version]) quiet_env leftover_world) = leftover_world \<and>
   (\<exists>msg. fst (main ([Debug] @ File ''notes.txt'' # [Version]) quiet_env leftover_world) =
      ArgumentError msg)"
proof -
  have r: "rejected (File ''notes.txt'')" by (simp add: suffix_examples)
  have n: "Version \<notin> set [Debug] \<and> Help \<notin> set [Debug]" by simp
  from rejected_path_ends_run_before_any_work [OF r, of "[Debug]" "[Version]" quiet_env leftover_world] n r
  show ?thesis by blast
qed

text \<open>
  C5. A run with no \<^verbatim>\<open>--file\<close> creates a template file and deletes it after the
  export, whether the export succeeds or fails. The code calls the cleanup after
  \<^verbatim>\<open>export_ics\<close> has returned and catches no exception: when the output file cannot
  be opened for writing, the run ends with the uncaught \<^verbatim>\<open>OSError\<close> and the template
  is still there.
\<close>

theorem template_left_behind_when_export_fails:
  "fst (main [] readonly_output_env empty_world) = Uncaught OSError \<and>
   files (snd (main [] readonly_output_env empty_world)) ''/app/events.xlsx'' =
     Some (XlsxFile [headers])"
proof -
  have ef: "events_file readonly_output_env = ''/app/events.xlsx''"
    by (simp add: events_file_def readonly_output_env_def joinpath_def)
  have p: "parse_args (script_dir readonly_output_env) [] =
     Inr \<lparr>args_debug = False, args_file = None, args_output = ''/app/output.ics''\<rparr>"
    by (simp add: readonly_output_env_def parse_no_options)
  have wr: "writable readonly_output_env (events_file readonly_output_env)"
    by (simp add: ef) (simp add: readonly_output_env_def)
  have inp: "\<not> stdin_eof readonly_output_env" by (simp add: readonly_output_env_def)
  have ro: "\<not> writable readonly_output_env ''/app/output.ics''"
    by (simp add: readonly_output_env_def)
  define w2 where "w2 =
     \<lparr>files = user_edit readonly_output_env
        ((files empty_world)(events_file readonly_output_env \<mapsto> XlsxFile [headers])),
      launched = launched empty_world @
        [[''open'', ''-a'', ''/Applications/Microsoft Excel.app'',
          events_file readonly_output_env]]\<rparr>"
  have c: "create_event_file readonly_output_env empty_world =
      (Inr (events_file readonly_output_env), w2)"
    unfolding w2_def by (rule create_event_file_ok [OF wr inp])
  have f: "files w2 ''/app/events.xlsx'' = Some (XlsxFile [headers])"
    by (simp add: w2_def ef) (simp add: readonly_output_env_def)
  then have l: "load_events (now readonly_output_env) (files w2) ''/app/events.xlsx'' = Inr []"
    by (rule load_template)
  have "main [] readonly_output_env empty_world = (Uncaught OSError, w2)"
    using main_without_file [OF p _ c] l ro
    by (simp add: ef export_ics_readonly)
  with f show ?thesis by simp
qed

text \<open>
  C5, as amended. In a run with no \<^verbatim>\<open>--file\<close>, when the template path can be written
  and the prompt is answered, the template (the header row alone) is written to the
  fixed path, and the sheet is loaded as the user left it. When loading and export
  succeed, the run completes, the calendar is at the output path and no file is left
  at the template path. When loading or export raises, the run ends with that error
  before the cleanup, in the state the user left.
\<close>

theorem template_created_then_deleted_after_export:
  assumes "parse_args (script_dir e) argv = Inr a"
    and "args_file a = None"
    and "writable e (events_file e)"
    and "\<not> stdin_eof e"
  shows "\<exists>w1 w2.
    workbook_save (events_file e) [headers] e w = Inr w1 \<and>
    files w1 (events_file e) = Some (XlsxFile [headers]) \<and>
    create_event_file e w = (Inr (events_file e), w2) \<and>
    files w2 = user_edit e (files w1) \<and>
    (case load_events (now e) (files w2) (events_file e) of
       Inl err \<Rightarrow> main argv e w = (Uncaught err, w2)
     | Inr events \<Rightarrow>
         if writable e (args_output a)
         then fst (main argv e w) = Completed \<and>
              files (snd (main argv e w)) =
                ((files w2)(args_output a \<mapsto> IcsFile (to_ical (Component ''VCALENDAR'' [] events))))
                  (events_file e := None) \<and>
              files (snd (main argv e w)) (events_file e) = None
         else main argv e w = (Uncaught OSError, w2))"
proof -
  define w1 where "w1 = w\<lparr>files := (files w)(events_file e \<mapsto> XlsxFile [headers])\<rparr>"
  define w2 where "w2 =
     \<lparr>files = user_edit e ((files w)(events_file e \<mapsto> XlsxFile [headers])),
      launched = launched w @
        [[''open'', ''-a'', ''/Applications/Microsoft Excel.app'', events_file e]]\<rparr>"
  have s: "workbook_save (events_file e) [headers] e w = Inr w1"
    using assms(3) by (simp add: workbook_save_def w1_def)
  have t: "files w1 (events_file e) = Some (XlsxFile [headers])"
    by (simp add: w1_def)
  have c: "create_event_file e w = (Inr (events_file e), w2)"
    unfolding w2_def by (rule create_event_file_ok [OF assms(3,4)])
  have u: "files w2 = user_edit e (files w1)"
    by (simp add: w1_def w2_def)
  note m = main_without_file [OF assms(1,2) c]
  have "case load_events (now e) (files w2) (events_file e) of
       Inl err \<Rightarrow> main argv e w = (Uncaught err, w2)
     | Inr events \<Rightarrow>
         if writable e (args_output a)
         then fst (main argv e w) = Completed \<and>
              files (snd (main argv e w)) =
                ((files w2)(args_output a \<mapsto> IcsFile (to_ical (Component ''VCALENDAR'' [] events))))
                  (events_file e := None) \<and>
              files (snd (main argv e w)) (events_file e) = None
         else main argv e w = (Uncaught OSError, w2)"
  proof (cases "load_events (now e) (files w2) (events_file e)")
    case (Inl err)
    with m show ?thesis by simp
  next
    case (Inr events)
    show ?thesis
    proof (cases "writable e (args_output a)")
      case True
      with m Inr show ?thesis
        by (simp add: export_ics_writable subprocess_call_def delete_temporary_files_files)
    next
      case False
      with m Inr show ?thesis by (simp add: export_ics_readonly)
    qed
  qed
  with s t c u show ?thesis by blast
qed

theorem template_created_then_deleted_after_export_witness:
  "(\<exists>w1. workbook_save ''/app/events.xlsx'' [headers] quiet_env empty_world = Inr w1 \<and>
      files w1 ''/app/events.xlsx'' = Some (XlsxFile [headers])) \<and>
   fst (main [] quiet_env empty_world) = Completed \<and>
   files (snd (main [] quiet_env empty_world)) ''/app/output.ics'' =
     Some (IcsFile (to_ical (Component ''VCALENDAR'' [] []))) \<and>
   files (snd (main [] quiet_env empty_world)) ''/app/events.xlsx'' = None"
proof -
  have p: "parse_args (script_dir quiet_env) [] =
     Inr \<lparr>args_debug = False, args_file = None, args_output = ''/app/output.ics''\<rparr>"
    by (simp add: quiet_env_def parse_no_options)
  have a: "args_file \<lparr>args_debug = False, args_file = None,
      args_output = ''/app/output.ics''\<rparr> = None"
    by simp
  have wr: "writable quiet_env (events_file quiet_env)" by (simp add: quiet_env_def)
  have inp: "\<not> stdin_eof quiet_env" by (simp add: quiet_env_def)
  from template_created_then_deleted_after_export [OF p a wr inp, of empty_world]
  obtain w1 w2 where
    s: "workbook_save (events_file quiet_env) [headers] quiet_env empty_world = Inr w1" and
    t: "files w1 (events_file quiet_env) = Some (XlsxFile [headers])" and
    u: "files w2 = user_edit quiet_env (files w1)" and
    k: "case load_events (now quiet_env) (files w2) (events_file quiet_env) of
       Inl err \<Rightarrow> main [] quiet_env empty_world = (Uncaught err, w2)
     | Inr events \<Rightarrow>
         if writable quiet_env (args_output \<lparr>args_debug = False, args_file = None,
              args_output = ''/app/output.ics''\<rparr>)
         then fst (main [] quiet_env empty_world) = Completed \<and>
              files (snd (main [] quiet_env empty_world)) =
                ((files w2)(args_output \<lparr>args_debug = False, args_file = None,
                     args_output = ''/app/output.ics''\<rparr> \<mapsto>
                   IcsFile (to_ical (Component ''VCALENDAR'' [] events))))
                  (events_file quiet_env := None) \<and>
              files (snd (main [] quiet_env empty_world)) (events_file quiet_env) = None
         else main [] quiet_env empty_world = (Uncaught OSError, w2)"
    by blast
  from u have "files w2 = files w1" by (simp add: quiet_env_def)
  with t have "load_events (now quiet_env) (files w2) (events_file quiet_env) = Inr []"
    by (simp add: load_template)
  with k have r: "fst (main [] quiet_env empty_world) = Completed"
    "files (snd (main [] quiet_env empty_world)) =
       ((files w2)(''/app/output.ics'' \<mapsto> IcsFile (to_ical (Component ''VCALENDAR'' [] []))))
         (events_file quiet_env := None)"
    by (simp_all add: quiet_env_def)
  from s t have "\<exists>w1. workbook_save ''/app/events.xlsx'' [headers] quiet_env empty_world = Inr w1 \<and>
      files w1 ''/app/events.xlsx'' = Some (XlsxFile [headers])"
    by (auto simp: events_file_quiet)
  with r show ?thesis by (simp add: events_file_quiet)
qed

text \<open>
  C6. Every component carries SUMMARY, DESCRIPTION, DTSTART, DTEND and DTSTAMP, and
  LOCATION only when the row has a location. The code does not omit LOCATION for an
  empty location cell: \<^verbatim>\<open>load_events\<close> passes \<^verbatim>\<open>str(None)\<close>, the text \<^verbatim>\<open>None\<close>, so the
  test \<^verbatim>\<open>location is not None\<close> of \<^verbatim>\<open>create_calendar_event\<close> never fails. The theorem
  evaluates the code on the row of the specification's example with its location
  cell left empty: the component has the LOCATION \<^verbatim>\<open>None\<close>.
\<close>

theorem empty_location_cell_gives_text_None:
  "no_location_row ! 5 = VNone \<and>
   (\<exists>ev. load_events noon_clock (sheet_of no_location_row) ''/data/in.xlsx'' = Inr [ev] \<and>
      getitem ev ''location'' = Some (vText ''None''))"
proof -
  have c: "no_location_row ! 5 = VNone" by (simp add: no_location_row_def)
  have "valid_row no_location_row" by (rule example_valid)
  then obtain d t1 t2 where v: "length no_location_row = 6"
    "as_date (no_location_row ! 2) = Some d" "as_time (no_location_row ! 3) = Some t1"
    "as_time (no_location_row ! 4) = Some t2"
    by (auto simp: valid_row_def)
  from row_event_valid [OF v, of "noon_clock 0"] obtain ev where
    ev: "row_event (noon_clock 0) no_location_row = Inr ev" by blast
  from row_event_props [OF ev] c have "getitem ev ''location'' = Some (vText ''None'')"
    by (auto simp: getitem_event upper_names)
  with ev c v(1) show ?thesis by (simp add: load_one_row)
qed

text \<open>
  C7. The cleanup deletes the template file only if this run created it, and does not
  delete a file that was there before. The code asks only whether a file exists at
  the fixed path: a run that was given \<^verbatim>\<open>--file\<close>, and so created no template,
  deletes the \<^verbatim>\<open>events.xlsx\<close> that it found beside the script.
\<close>

theorem cleanup_deletes_file_the_run_did_not_create:
  "files leftover_world ''/app/events.xlsx'' = Some (XlsxFile [headers, backwards_row]) \<and>
   fst (main [File ''/data/in.xlsx''] quiet_env leftover_world) = Completed \<and>
   files (snd (main [File ''/data/in.xlsx''] quiet_env leftover_world)) ''/app/events.xlsx'' = None \<and>
   launched (snd (main [File ''/data/in.xlsx''] quiet_env leftover_world)) =
     [[''open'', ''-R'', ''/app/output.ics'']]"
proof -
  have p: "parse_args (script_dir quiet_env) [File ''/data/in.xlsx''] =
     Inr \<lparr>args_debug = False, args_file = Some ''/data/in.xlsx'',
          args_output = ''/app/output.ics''\<rparr>"
    by (simp add: quiet_env_def parse_file_example)
  have n: "now quiet_env = noon_clock" by (simp add: quiet_env_def)
  have o: "writable quiet_env ''/app/output.ics''" by (simp add: quiet_env_def)
  from load_leftover obtain ev where
    l: "load_events noon_clock (files leftover_world) ''/data/in.xlsx'' = Inr [ev]" by blast
  have m: "main [File ''/data/in.xlsx''] quiet_env leftover_world =
    (Completed,
     subprocess_call [''open'', ''-R'', ''/app/output.ics'']
       (delete_temporary_files quiet_env
          (leftover_world\<lparr>files := (files leftover_world)(''/app/output.ics'' \<mapsto>
             IcsFile (to_ical (Component ''VCALENDAR'' [] [ev])))\<rparr>)))"
    using main_with_file [OF p, of "''/data/in.xlsx''" leftover_world] l
    by (simp add: n export_ics_writable [OF o])
  have "files leftover_world ''/app/events.xlsx'' = Some (XlsxFile [headers, backwards_row])"
    by (simp add: leftover_world_def)
  moreover have "launched leftover_world = []" by (simp add: leftover_world_def)
  ultimately show ?thesis
    by (simp add: m subprocess_call_def delete_temporary_files_files
        delete_temporary_files_launched events_file_quiet)
qed

text \<open>
  C7, as amended. After the cleanup there is no file at the fixed path of the
  template, whoever created it; every other file and the list of started programs
  are unchanged; when there is no file at that path the cleanup changes nothing; and
  running it twice is running it once.
\<close>

theorem cleanup_deletes_template_path_when_present:
  "files (delete_temporary_files e w) (events_file e) = None \<and>
   (\<forall>p. p \<noteq> events_file e \<longrightarrow> files (delete_temporary_files e w) p = files w p) \<and>
   launched (delete_temporary_files e w) = launched w \<and>
   (files w (events_file e) = None \<longrightarrow> delete_temporary_files e w = w) \<and>
   delete_temporary_files e (delete_temporary_files e w) = delete_temporary_files e w"
proof -
  have gone: "files (delete_temporary_files e w) (events_file e) = None"
    by (simp add: delete_temporary_files_files)
  have "delete_temporary_files e (delete_temporary_files e w) = delete_temporary_files e w"
    using gone by (rule delete_temporary_files_absent)
  then show ?thesis
    by (simp add: delete_temporary_files_files delete_temporary_files_launched
        delete_temporary_files_absent)
qed

theorem cleanup_deletes_template_path_when_present_witness:
  "files leftover_world ''/app/events.xlsx'' = Some (XlsxFile [headers, backwards_row]) \<and>
   files (delete_temporary_files quiet_env leftover_world) ''/app/events.xlsx'' = None \<and>
   files (delete_temporary_files quiet_env leftover_world) ''/data/in.xlsx'' =
     files leftover_world ''/data/in.xlsx'' \<and>
   delete_temporary_files quiet_env empty_world = empty_world"
proof -
  note full = cleanup_deletes_template_path_when_present [of quiet_env leftover_world]
  note none = cleanup_deletes_template_path_when_present [of quiet_env empty_world]
  have d: "''/data/in.xlsx'' \<noteq> events_file quiet_env" by (simp add: events_file_quiet)
  have a: "files empty_world (events_file quiet_env) = None" by (simp add: empty_world_def)
  from full have "files (delete_temporary_files quiet_env leftover_world) ''/app/events.xlsx'' = None"
    by (simp add: events_file_quiet)
  moreover from full d have "files (delete_temporary_files quiet_env leftover_world) ''/data/in.xlsx'' =
     files leftover_world ''/data/in.xlsx''" by blast
  moreover from none a have "delete_temporary_files quiet_env empty_world = empty_world" by blast
  moreover have "files leftover_world ''/app/events.xlsx'' = Some (XlsxFile [headers, backwards_row])"
    by (simp add: leftover_world_def)
  ultimately show ?thesis by blast
qed

text \<open>
  C8. A row in which a cell is empty or of the wrong type makes row parsing fail. This
  does not hold for the location cell, which \<^verbatim>\<open>load_events\<close> converts with \<^verbatim>\<open>str\<close>: a
  row whose location cell holds the number 12 is parsed, and its component has the
  LOCATION \<^verbatim>\<open>12\<close>.
\<close>

theorem number_in_location_cell_is_no_error:
  "room_number_row ! 5 = VInt 12 \<and>
   (\<exists>ev. load_events noon_clock (sheet_of room_number_row) ''/data/in.xlsx'' = Inr [ev] \<and>
      getitem ev ''location'' = Some (vText ''12''))"
proof -
  have c: "room_number_row ! 5 = VInt 12" by (simp add: room_number_row_def)
  have s: "py_str (VInt 12) = ''12''" by (simp add: str_int_def digits.simps)
  have "valid_row room_number_row" by (rule example_valid)
  then obtain d t1 t2 where v: "length room_number_row = 6"
    "as_date (room_number_row ! 2) = Some d" "as_time (room_number_row ! 3) = Some t1"
    "as_time (room_number_row ! 4) = Some t2"
    by (auto simp: valid_row_def)
  from row_event_valid [OF v, of "noon_clock 0"] obtain ev where
    ev: "row_event (noon_clock 0) room_number_row = Inr ev" by blast
  from row_event_props [OF ev] c s have "getitem ev ''location'' = Some (vText ''12'')"
    by (auto simp: getitem_event upper_names)
  with ev c v(1) show ?thesis by (simp add: load_one_row)
qed

text \<open>
  C8, as amended. In a sheet whose rows have six cells, a row whose date cell holds no
  date, or whose start-time or end-time cell holds no time of day (an empty cell
  included), makes \<^verbatim>\<open>load_events\<close> raise \<^verbatim>\<open>TypeError\<close>: no event is returned, and
  the run that was given the sheet ends with the uncaught error, the files as they
  were.
\<close>

theorem bad_date_or_time_cell_is_TypeError:
  assumes "parse_args (script_dir e) argv = Inr a"
    and "args_file a = Some f"
    and "files w f = Some (XlsxFile (header # rows))"
    and "\<forall>r\<in>set rows. length r = 6"
    and "r \<in> set rows"
    and "as_date (r ! 2) = None \<or> as_time (r ! 3) = None \<or> as_time (r ! 4) = None"
  shows "load_events (now e) (files w) f = Inl TypeError \<and>
    main argv e w = (Uncaught TypeError, w)"
proof -
  from assms(6) have "\<not> valid_row r" by (auto simp: valid_row_def)
  with assms(5) have "\<exists>r\<in>set rows. \<not> valid_row r" by blast
  with assms(4) have "load_rows (now e) rows [] = Inl TypeError"
    by (rule load_rows_TypeError)
  with assms(3) have l: "load_events (now e) (files w) f = Inl TypeError"
    by (simp add: load_events_sheet)
  with main_with_file [OF assms(1,2), of w] show ?thesis by simp
qed

theorem bad_date_or_time_cell_is_TypeError_witness:
  "load_events (now quiet_env)
      (files \<lparr>files = sheet_of no_date_row, launched = []\<rparr>) ''/data/in.xlsx'' = Inl TypeError \<and>
   main [File ''/data/in.xlsx''] quiet_env \<lparr>files = sheet_of no_date_row, launched = []\<rparr> =
     (Uncaught TypeError, \<lparr>files = sheet_of no_date_row, launched = []\<rparr>)"
proof -
  have p: "parse_args (script_dir quiet_env) [File ''/data/in.xlsx''] =
     Inr \<lparr>args_debug = False, args_file = Some ''/data/in.xlsx'',
          args_output = ''/app/output.ics''\<rparr>"
    by (simp add: quiet_env_def parse_file_example)
  have a: "args_file \<lparr>args_debug = False, args_file = Some ''/data/in.xlsx'',
          args_output = ''/app/output.ics''\<rparr> = Some ''/data/in.xlsx''"
    by simp
  have f: "files \<lparr>files = sheet_of no_date_row, launched = []\<rparr> ''/data/in.xlsx'' =
      Some (XlsxFile (headers # [no_date_row]))"
    by (simp add: sheet_of_def)
  have six: "\<forall>r\<in>set [no_date_row]. length r = 6" by (simp add: example_lengths)
  have m: "no_date_row \<in> set [no_date_row]" by simp
  have bad: "as_date (no_date_row ! 2) = None \<or> as_time (no_date_row ! 3) = None \<or>
      as_time (no_date_row ! 4) = None"
    by (simp add: no_date_row_def)
  show ?thesis
    by (rule bad_date_or_time_cell_is_TypeError [OF p a f six m bad])
qed

text \<open>
  C9. Nothing checks that an event ends after it starts: for every row whose end-time
  cell holds a time of day strictly earlier than the one in its start-time cell, in a
  sheet of valid rows, loading and export succeed, the component of that row has the
  two times of day as they stand in the cells, its DTEND is strictly before its
  DTSTART, and both are printed on the content lines of that component in the
  document that is written.
\<close>

theorem end_before_start_is_accepted:
  assumes "files w filename = Some (XlsxFile (header # rows))"
    and "\<forall>r\<in>set rows. valid_row r"
    and "writable e out"
    and "i < length rows"
    and "rows ! i ! 3 = VTime t1"
    and "rows ! i ! 4 = VTime t2"
    and "time_less t2 t1"
  shows "\<exists>events s f.
    load_events clock (files w) filename = Inr events \<and>
    export_ics events out e w =
      Inr (w\<lparr>files := (files w)(out \<mapsto> IcsFile (to_ical (Component ''VCALENDAR'' [] events)))\<rparr>) \<and>
    i < length events \<and>
    getitem (events ! i) ''dtstart'' = Some (vDDDTypes s) \<and>
    getitem (events ! i) ''dtend'' = Some (vDDDTypes f) \<and>
    dt_hour s = hour t1 \<and> dt_minute s = minute t1 \<and> dt_second s = second t1 \<and>
    dt_microsecond s = microsecond t1 \<and>
    dt_hour f = hour t2 \<and> dt_minute f = minute t2 \<and> dt_second f = second t2 \<and>
    dt_microsecond f = microsecond t2 \<and>
    datetime_less f s \<and>
    component_lines (Component ''VCALENDAR'' [] events) =
      ''BEGIN:VCALENDAR'' # concat (map component_lines events) @ [''END:VCALENDAR''] \<and>
    component_lines (events ! i) ! 2 = ''DTSTART:'' @ vDatetime_to_ical s \<and>
    component_lines (events ! i) ! 3 = ''DTEND:'' @ vDatetime_to_ical f"
proof -
  from load_events_valid_nth [of "files w" filename header rows clock, OF assms(1,2)]
  obtain events where
    l: "load_events clock (files w) filename = Inr events" "length events = length rows" and
    n: "\<forall>i<length rows. row_event (clock i) (rows ! i) = Inr (events ! i)"
    by blast
  from n assms(4) have r: "row_event (clock i) (rows ! i) = Inr (events ! i)" by simp
  from row_event_props [OF r] obtain d :: date and u1 u2 :: time where
    u: "as_time (rows ! i ! 3) = Some u1" "as_time (rows ! i ! 4) = Some u2" and
    c: "events ! i = Component ''VEVENT''
       [(''SUMMARY'', vText (py_str (rows ! i ! 0))),
        (''DESCRIPTION'', vText (py_str (rows ! i ! 1))),
        (''DTSTART'', vDDDTypes
           \<lparr>year = year d, month = month d, day = day d,
            dt_hour = hour u1, dt_minute = minute u1, dt_second = second u1,
            dt_microsecond = microsecond u1, dt_tzinfo = None\<rparr>),
        (''DTEND'', vDDDTypes
           \<lparr>year = year d, month = month d, day = day d,
            dt_hour = hour u2, dt_minute = minute u2, dt_second = second u2,
            dt_microsecond = microsecond u2, dt_tzinfo = None\<rparr>),
        (''DTSTAMP'', vDDDTypes ((clock i)\<lparr>dt_tzinfo := Some UTC\<rparr>)),
        (''LOCATION'', vText (py_str (rows ! i ! 5)))] []"
    by blast
  from u assms(5,6) have same: "u1 = t1" "u2 = t2" by simp_all
  define s where "s =
        \<lparr>year = year d, month = month d, day = day d,
         dt_hour = hour t1, dt_minute = minute t1, dt_second = second t1,
         dt_microsecond = microsecond t1, dt_tzinfo = None\<rparr>"
  define f where "f =
        \<lparr>year = year d, month = month d, day = day d,
         dt_hour = hour t2, dt_minute = minute t2, dt_second = second t2,
         dt_microsecond = microsecond t2, dt_tzinfo = None\<rparr>"
  have ev: "getitem (events ! i) ''dtstart'' = Some (vDDDTypes s)"
    "getitem (events ! i) ''dtend'' = Some (vDDDTypes f)"
    by (simp_all add: c same s_def f_def getitem_event upper_names)
  have tod: "dt_hour s = hour t1 \<and> dt_minute s = minute t1 \<and> dt_second s = second t1 \<and>
    dt_microsecond s = microsecond t1 \<and>
    dt_hour f = hour t2 \<and> dt_minute f = minute t2 \<and> dt_second f = second t2 \<and>
    dt_microsecond f = microsecond t2"
    by (simp add: s_def f_def)
  from assms(7) have less: "datetime_less f s"
    by (simp add: datetime_less_def time_less_def s_def f_def)
  have lines: "component_lines (events ! i) ! 2 = ''DTSTART:'' @ vDatetime_to_ical s"
    "component_lines (events ! i) ! 3 = ''DTEND:'' @ vDatetime_to_ical f"
    by (simp_all add: c same s_def f_def component_lines_event)
  from l assms(4) ev tod less lines component_lines_calendar [of events]
    export_ics_writable [OF assms(3), of events w]
  show ?thesis by (intro exI [of _ events] exI [of _ s] exI [of _ f]) simp
qed

theorem end_before_start_is_accepted_witness:
  "\<exists>events s f.
    load_events noon_clock (files leftover_world) ''/app/events.xlsx'' = Inr events \<and>
    export_ics events ''/data/out.ics'' quiet_env leftover_world =
      Inr (leftover_world\<lparr>files := (files leftover_world)(''/data/out.ics'' \<mapsto>
             IcsFile (to_ical (Component ''VCALENDAR'' [] events)))\<rparr>) \<and>
    getitem (events ! 0) ''dtstart'' = Some (vDDDTypes s) \<and>
    getitem (events ! 0) ''dtend'' = Some (vDDDTypes f) \<and>
    dt_hour s = 9 \<and> dt_minute s = 15 \<and> dt_hour f = 9 \<and> dt_minute f = 0 \<and>
    datetime_less f s \<and>
    component_lines (events ! 0) ! 2 = ''DTSTART:'' @ vDatetime_to_ical s \<and>
    component_lines (events ! 0) ! 3 = ''DTEND:'' @ vDatetime_to_ical f"
proof -
  have f: "files leftover_world ''/app/events.xlsx'' = Some (XlsxFile (headers # [backwards_row]))"
    by (simp add: leftover_world_def)
  have v: "\<forall>r\<in>set [backwards_row]. valid_row r"
    by (simp add: example_valid)
  have o: "writable quiet_env ''/data/out.ics''"
    by (simp add: quiet_env_def)
  have i: "0 < length [backwards_row]" by simp
  have t1: "[backwards_row] ! 0 ! 3 =
      VTime \<lparr>hour = 9, minute = 15, second = 0, microsecond = 0\<rparr>"
    by (simp add: backwards_row_def quarter_past_nine_def)
  have t2: "[backwards_row] ! 0 ! 4 =
      VTime \<lparr>hour = 9, minute = 0, second = 0, microsecond = 0\<rparr>"
    by (simp add: backwards_row_def nine_def)
  have less: "time_less \<lparr>hour = 9, minute = 0, second = 0, microsecond = 0\<rparr>
      \<lparr>hour = 9, minute = 15, second = 0, microsecond = 0\<rparr>"
    by (simp add: time_less_def)
  from end_before_start_is_accepted [OF f v o i t1 t2 less, of noon_clock]
  show ?thesis by (elim exE conjE, intro exI conjI) simp_all
qed

text \<open>
  C10. Every event that \<^verbatim>\<open>load_events\<close> returns has a DTSTART and a DTEND with
  the same year, month and day: both are built from the one date cell of the row, so
  no row can describe an event that ends on a later date than it starts.
\<close>

theorem end_on_the_date_of_start:
  assumes "load_events clock fs filename = Inr events"
    and "ev \<in> set events"
  shows "\<exists>s f.
    getitem ev ''dtstart'' = Some (vDDDTypes s) \<and>
    getitem ev ''dtend'' = Some (vDDDTypes f) \<and>
    year f = year s \<and> month f = month s \<and> day f = day s"
proof -
  from load_events_Inr_sheet [OF assms(1)] obtain header rows where
    sheet: "fs filename = Some (XlsxFile (header # rows))" by blast
  from load_events_nth [OF sheet assms(1)] have
    len: "length events = length rows" and
    n: "\<forall>i<length rows. row_event (clock i) (rows ! i) = Inr (events ! i)"
    by blast+
  from assms(2) obtain i where i: "i < length events" "ev = events ! i"
    by (auto simp: in_set_conv_nth)
  with n len have r: "row_event (clock i) (rows ! i) = Inr ev" by simp
  from row_event_props [OF r] show ?thesis
    by (auto simp: getitem_event upper_names)
qed

theorem end_on_the_date_of_start_witness:
  "\<exists>ev. load_events noon_clock (sheet_of backwards_row) ''/data/in.xlsx'' = Inr [ev] \<and>
    (\<exists>s f.
      getitem ev ''dtstart'' = Some (vDDDTypes s) \<and>
      getitem ev ''dtend'' = Some (vDDDTypes f) \<and>
      year f = year s \<and> month f = month s \<and> day f = day s)"
proof -
  have f: "sheet_of backwards_row ''/data/in.xlsx'' = Some (XlsxFile (headers # [backwards_row]))"
    by (simp add: sheet_of_def)
  have v: "\<forall>r\<in>set [backwards_row]. valid_row r"
    by (simp add: example_valid)
  from load_events_valid_nth [of "sheet_of backwards_row" "''/data/in.xlsx''" headers
      "[backwards_row]" noon_clock, OF f v]
  obtain events where l: "load_events noon_clock (sheet_of backwards_row) ''/data/in.xlsx'' = Inr events"
    and len: "length events = 1" by auto
  from len obtain ev where e: "events = [ev]"
    by (cases events) auto
  from end_on_the_date_of_start [OF l, of ev] e l show ?thesis by simp
qed

end
